theory Spec2Isabelle
  imports Complex_Main
begin

chapter \<open>Model\<close>

section \<open>Record model (src/data/types.ts)\<close>

text \<open>
  The string-literal union types of \<^verbatim>\<open>ServiceRequest\<close> are closed enumerations, so each
  becomes a datatype. \<^verbatim>\<open>Urgency\<close> and \<^verbatim>\<open>Priority\<close> are the same union
  \<^verbatim>\<open>'Low' | 'Medium' | 'High'\<close> and share one datatype. A JavaScript \<^verbatim>\<open>number\<close> is modelled
  as a real: the arithmetic below is exact, and the one place where the program divides by
  zero is modelled with an explicit value for \<^verbatim>\<open>NaN\<close> (see \<open>JsNumber\<close>).
\<close>

datatype Vertical = Restaurant | Fuel | Grocery

datatype Status = Resolved | InProgress

datatype IssueCategory =
  APIError | BillingInquiry | RefundRequest | NetworkIssues | SoftwareIntegration

datatype Level = Low | Medium | High

type_synonym Urgency = Level
type_synonym Priority = Level

datatype AccountHealth = Advocate | Engaged | Neutral | Skeptic | ChurnRisk

record ServiceRequest =
  requestId :: string
  accountName :: string
  vertical :: Vertical
  siteCount :: real
  issueCategory :: IssueCategory
  requestDate :: string
  status :: Status
  urgency :: Urgency
  priority :: Priority
  timeToRespond :: real
  timeToResolution :: real
  resolutionDate :: string
  accountHealth :: AccountHealth

section \<open>SLA threshold store (contexts/SLAContext.tsx)\<close>

record SLAThresholds =
  responseTimeHours :: real
  resolutionTimeHours :: real

definition defaultThresholds :: SLAThresholds where
  "defaultThresholds = \<lparr>responseTimeHours = 12, resolutionTimeHours = 72\<rparr>"

text \<open>
  The four functions close over the \<^verbatim>\<open>thresholds\<close> state of the provider; the model
  passes it as the first argument.
\<close>

definition isBreachingResponse :: "SLAThresholds \<Rightarrow> ServiceRequest \<Rightarrow> bool" where
  "isBreachingResponse thresholds request \<longleftrightarrow>
     timeToRespond request > responseTimeHours thresholds"

definition isBreachingResolution :: "SLAThresholds \<Rightarrow> ServiceRequest \<Rightarrow> bool" where
  "isBreachingResolution thresholds request \<longleftrightarrow>
     timeToResolution request > resolutionTimeHours thresholds"

definition isBreachingSLA :: "SLAThresholds \<Rightarrow> ServiceRequest \<Rightarrow> bool" where
  "isBreachingSLA thresholds request \<longleftrightarrow>
     isBreachingResponse thresholds request \<or> isBreachingResolution thresholds request"

definition getBreachCount :: "SLAThresholds \<Rightarrow> ServiceRequest list \<Rightarrow> nat" where
  "getBreachCount thresholds data = length (filter (isBreachingSLA thresholds) data)"

text \<open>The two records of the example scenario of the specification.\<close>

definition exampleA :: ServiceRequest where
  "exampleA = \<lparr>requestId = ''A'', accountName = ''Acme'', vertical = Restaurant,
     siteCount = 1, issueCategory = APIError, requestDate = ''2024-01-01'',
     status = Resolved, urgency = Low, priority = Low, timeToRespond = 5,
     timeToResolution = 10, resolutionDate = ''2024-01-02'', accountHealth = Neutral\<rparr>"

definition exampleB :: ServiceRequest where
  "exampleB = \<lparr>requestId = ''B'', accountName = ''Bolt'', vertical = Fuel,
     siteCount = 2, issueCategory = BillingInquiry, requestDate = ''2024-01-02'',
     status = InProgress, urgency = High, priority = High, timeToRespond = 20,
     timeToResolution = 10, resolutionDate = ''2024-01-03'', accountHealth = Engaged\<rparr>"

section \<open>Dates (the ECMAScript \<^verbatim>\<open>Date\<close> operations the program calls)\<close>

text \<open>
  A \<^verbatim>\<open>Date\<close> holds a time value: milliseconds since 1970-01-01T00:00:00Z, or \<^verbatim>\<open>NaN\<close>
  for an invalid date. Relational operators on dates compare the time values, and any
  comparison with \<^verbatim>\<open>NaN\<close> is false. The calendar functions follow the abstract operations
  of the language specification (\<^verbatim>\<open>Day\<close>, \<^verbatim>\<open>MakeDay\<close>, \<^verbatim>\<open>MakeDate\<close>, \<^verbatim>\<open>LocalTime\<close>,
  \<^verbatim>\<open>UTC\<close>) on the proleptic Gregorian calendar. Time values are unbounded integers here;
  the language clips them at 8.64e15 ms from the epoch, far from any clock reading.

  The offset of local time from UTC belongs to the host: the specification's
  \<^verbatim>\<open>LocalTZA(t, isUTC)\<close>, in milliseconds, where \<open>t\<close> is a UTC time value when \<open>isUTC\<close> is
  true and a local one otherwise. It is the parameter \<open>tza\<close> of every local-time operation.
  \<open>fixedOffset\<close> is a zone whose clocks never change. \<open>clockChange\<close> is a zone around one
  change of its clocks at the instant \<open>change\<close>, from the offset \<open>offset1\<close> to the offset
  \<open>offset2\<close>; a local time value that the change skips or repeats is read with the offset
  before the change, as the specification prescribes.
\<close>

type_synonym TimeZone = "int \<Rightarrow> bool \<Rightarrow> int"

definition fixedOffset :: "int \<Rightarrow> TimeZone" where
  "fixedOffset off = (\<lambda>t isUTC. off)"

definition clockChange :: "int \<Rightarrow> int \<Rightarrow> int \<Rightarrow> TimeZone" where
  "clockChange change offset1 offset2 =
     (\<lambda>t isUTC. if isUTC then (if t < change then offset1 else offset2)
                 else (if t < change + max offset1 offset2 then offset1 else offset2))"

text \<open>
  New York in March 2024: five hours behind UTC until 2024-03-10T07:00:00Z (2 a.m. local),
  four hours behind from then on.
\<close>

definition newYork2024 :: TimeZone where
  "newYork2024 = clockChange 1710054000000 (- 18000000) (- 14400000)"

datatype Date = Date int | InvalidDate

definition msPerDay :: int where
  "msPerDay = 86400000"

definition Day :: "int \<Rightarrow> int" where
  "Day t = t div msPerDay"

definition TimeWithinDay :: "int \<Rightarrow> int" where
  "TimeWithinDay t = t mod msPerDay"

definition daysFromCivil :: "int \<Rightarrow> int \<Rightarrow> int \<Rightarrow> int" where
  "daysFromCivil y m d =
     (let y' = (if m \<le> 2 then y - 1 else y);
          era = y' div 400;
          yoe = y' - era * 400;
          doy = (153 * (if m > 2 then m - 3 else m + 9) + 2) div 5 + d - 1;
          doe = yoe * 365 + yoe div 4 - yoe div 100 + doy
      in era * 146097 + doe - 719468)"

definition civilFromDays :: "int \<Rightarrow> int \<times> int \<times> int" where
  "civilFromDays z =
     (let z' = z + 719468;
          era = z' div 146097;
          doe = z' - era * 146097;
          yoe = (doe - doe div 1460 + doe div 36524 - doe div 146096) div 365;
          doy = doe - (365 * yoe + yoe div 4 - yoe div 100);
          mp = (5 * doy + 2) div 153;
          d = doy - (153 * mp + 2) div 5 + 1;
          m = (if mp < 10 then mp + 3 else mp - 9)
      in (if m \<le> 2 then yoe + era * 400 + 1 else yoe + era * 400, m, d))"

definition YearFromTime :: "int \<Rightarrow> int" where
  "YearFromTime t = fst (civilFromDays (Day t))"

definition MonthFromTime :: "int \<Rightarrow> int" where
  "MonthFromTime t = fst (snd (civilFromDays (Day t))) - 1"

definition DateFromTime :: "int \<Rightarrow> int" where
  "DateFromTime t = snd (snd (civilFromDays (Day t)))"

definition MakeDay :: "int \<Rightarrow> int \<Rightarrow> int \<Rightarrow> int" where
  "MakeDay year month date =
     daysFromCivil (year + month div 12) (month mod 12 + 1) 1 + date - 1"

definition MakeDate :: "int \<Rightarrow> int \<Rightarrow> int" where
  "MakeDate day time = day * msPerDay + time"

definition LocalTime :: "TimeZone \<Rightarrow> int \<Rightarrow> int" where
  "LocalTime tza t = t + tza t True"

definition UTC :: "TimeZone \<Rightarrow> int \<Rightarrow> int" where
  "UTC tza t = t - tza t False"

definition getFullYear :: "TimeZone \<Rightarrow> int \<Rightarrow> int" where
  "getFullYear tza t = YearFromTime (LocalTime tza t)"

definition getMonth :: "TimeZone \<Rightarrow> int \<Rightarrow> int" where
  "getMonth tza t = MonthFromTime (LocalTime tza t)"

definition getDate :: "TimeZone \<Rightarrow> int \<Rightarrow> int" where
  "getDate tza t = DateFromTime (LocalTime tza t)"

definition setDate :: "TimeZone \<Rightarrow> int \<Rightarrow> int \<Rightarrow> int" where
  "setDate tza t dt =
     (let lt = LocalTime tza t
      in UTC tza (MakeDate (MakeDay (YearFromTime lt) (MonthFromTime lt) dt)
                           (TimeWithinDay lt)))"

definition newDateYMD :: "TimeZone \<Rightarrow> int \<Rightarrow> int \<Rightarrow> int \<Rightarrow> int" where
  "newDateYMD tza year month date =
     (let yr = (if 0 \<le> year \<and> year \<le> 99 then 1900 + year else year)
      in UTC tza (MakeDate (MakeDay yr month date) 0))"

definition digitChar :: "int \<Rightarrow> char" where
  "digitChar n = ''0123456789'' ! nat (n mod 10)"

definition pad2 :: "int \<Rightarrow> string" where
  "pad2 n = [digitChar (n div 10), digitChar n]"

definition pad4 :: "int \<Rightarrow> string" where
  "pad4 n = [digitChar (n div 1000), digitChar (n div 100), digitChar (n div 10), digitChar n]"

definition pad6 :: "int \<Rightarrow> string" where
  "pad6 n = [digitChar (n div 100000), digitChar (n div 10000)] @ pad4 n"

definition isoYear :: "int \<Rightarrow> string" where
  "isoYear y = (if 0 \<le> y \<and> y \<le> 9999 then pad4 y
                else if y < 0 then CHR ''-'' # pad6 (- y) else CHR ''+'' # pad6 y)"

definition isoDateString :: "int \<Rightarrow> string" where
  "isoDateString t =
     isoYear (YearFromTime t) @ ''-'' @ pad2 (MonthFromTime t + 1) @ ''-'' @ pad2 (DateFromTime t)"

definition digitVal :: "char \<Rightarrow> int option" where
  "digitVal c = (let n = (of_char c :: nat)
                 in if 48 \<le> n \<and> n \<le> 57 then Some (int n - 48) else None)"

definition DaysInMonth :: "int \<Rightarrow> int \<Rightarrow> int" where
  "DaysInMonth y m = daysFromCivil (y + m div 12) (m mod 12 + 1) 1 - daysFromCivil y m 1"

text \<open>
  \<^verbatim>\<open>new Date(s)\<close> on a string: the date-only form \<^verbatim>\<open>YYYY-MM-DD\<close> of the record data denotes
  midnight UTC of that day. Every other string is treated as unparseable; no statement below
  depends on the result for such a string.
\<close>

definition parseDate :: "string \<Rightarrow> Date" where
  "parseDate s =
     (case s of
        [y1, y2, y3, y4, h1, m1, m2, h2, d1, d2] \<Rightarrow>
          (case (digitVal y1, digitVal y2, digitVal y3, digitVal y4,
                 digitVal m1, digitVal m2, digitVal d1, digitVal d2) of
             (Some a, Some b, Some c, Some d, Some e, Some f, Some g, Some h) \<Rightarrow>
               (let y = 1000 * a + 100 * b + 10 * c + d; m = 10 * e + f; dd = 10 * g + h
                in if h1 = CHR ''-'' \<and> h2 = CHR ''-'' \<and> 1 \<le> m \<and> m \<le> 12 \<and>
                      1 \<le> dd \<and> dd \<le> DaysInMonth y m
                   then Date (MakeDate (MakeDay y (m - 1) dd) 0)
                   else InvalidDate)
           | _ \<Rightarrow> InvalidDate)
      | _ \<Rightarrow> InvalidDate)"

definition date_lt :: "Date \<Rightarrow> Date \<Rightarrow> bool" where
  "date_lt a b = (case (a, b) of (Date x, Date y) \<Rightarrow> x < y | _ \<Rightarrow> False)"

definition date_gt :: "Date \<Rightarrow> Date \<Rightarrow> bool" where
  "date_gt a b = (case (a, b) of (Date x, Date y) \<Rightarrow> x > y | _ \<Rightarrow> False)"

text \<open>\<^verbatim>\<open>Number.prototype.toString\<close> on an integer: its decimal digits, with a sign.\<close>

fun digits :: "nat \<Rightarrow> string" where
  "digits n = (if n < 10 then [digitChar (int n)]
               else digits (n div 10) @ [digitChar (int n)])"

declare digits.simps [simp del]

definition toString :: "int \<Rightarrow> string" where
  "toString n = (if n < 0 then CHR ''-'' # digits (nat (- n)) else digits (nat n))"

section \<open>Filter state store (contexts/FilterContext.tsx)\<close>

datatype Preset = last7 | last30 | last90 | ytd | custom | all

record DateRange =
  start :: "Date option"
  end' :: "Date option"
  preset :: Preset

record ChartFilters =
  vertical :: "Vertical option"
  status :: "Status option"
  issueCategory :: "IssueCategory option"
  accountHealth :: "AccountHealth option"

record FilterPreset =
  id' :: string
  name :: string
  filters :: ChartFilters
  dateRange :: DateRange

definition defaultDateRange :: DateRange where
  "defaultDateRange = \<lparr>start = None, end' = None, preset = all\<rparr>"

definition defaultChartFilters :: ChartFilters where
  "defaultChartFilters =
     \<lparr>vertical = None, status = None, issueCategory = None, accountHealth = None\<rparr>"

text \<open>
  The three \<^verbatim>\<open>useState\<close> cells of \<^verbatim>\<open>FilterProvider\<close>. Each callback of the provider is
  a function from the state at the time of the call to the state after it; \<^verbatim>\<open>Date.now()\<close>
  is an argument of \<open>savePreset\<close>. The collection is also written to local storage by
  \<open>savePreset\<close> and \<open>deletePreset\<close>; the store reads it back only when it is created, as the
  initial value of \<open>presets\<close>.
\<close>

record FilterState =
  chartFilters :: ChartFilters
  dateRange :: DateRange
  presets :: "FilterPreset list"

definition initialState :: "FilterPreset list \<Rightarrow> FilterState" where
  "initialState saved =
     \<lparr>chartFilters = defaultChartFilters, dateRange = defaultDateRange, presets = saved\<rparr>"

text \<open>
  \<^verbatim>\<open>setChartFilter(key, value)\<close> is typed so that the value belongs to the key's own
  enumeration (or is \<^verbatim>\<open>null\<close>); a key with its value is one constructor.
\<close>

datatype ChartFilterUpdate =
  SetVertical "Vertical option"
| SetStatus "Status option"
| SetIssueCategory "IssueCategory option"
| SetAccountHealth "AccountHealth option"

fun setChartFilters :: "ChartFilterUpdate \<Rightarrow> ChartFilters \<Rightarrow> ChartFilters" where
  "setChartFilters (SetVertical v) prev = prev\<lparr>ChartFilters.vertical := v\<rparr>"
| "setChartFilters (SetStatus v) prev = prev\<lparr>ChartFilters.status := v\<rparr>"
| "setChartFilters (SetIssueCategory v) prev = prev\<lparr>ChartFilters.issueCategory := v\<rparr>"
| "setChartFilters (SetAccountHealth v) prev = prev\<lparr>ChartFilters.accountHealth := v\<rparr>"

definition setChartFilter :: "ChartFilterUpdate \<Rightarrow> FilterState \<Rightarrow> FilterState" where
  "setChartFilter kv s = s\<lparr>chartFilters := setChartFilters kv (chartFilters s)\<rparr>"

definition clearChartFilters :: "FilterState \<Rightarrow> FilterState" where
  "clearChartFilters s = s\<lparr>chartFilters := defaultChartFilters\<rparr>"

definition hasActiveChartFilters :: "FilterState \<Rightarrow> bool" where
  "hasActiveChartFilters s \<longleftrightarrow>
     list_ex (\<lambda>v. v)
       [ChartFilters.vertical (chartFilters s) \<noteq> None,
        ChartFilters.status (chartFilters s) \<noteq> None,
        ChartFilters.issueCategory (chartFilters s) \<noteq> None,
        ChartFilters.accountHealth (chartFilters s) \<noteq> None]"

definition setDateRange :: "DateRange \<Rightarrow> FilterState \<Rightarrow> FilterState" where
  "setDateRange newRange s = s\<lparr>dateRange := newRange\<rparr>"

definition savePreset :: "int \<Rightarrow> string \<Rightarrow> FilterState \<Rightarrow> FilterState" where
  "savePreset now nm s =
     (let newPreset = \<lparr>id' = toString now, name = nm,
                        filters = chartFilters s, dateRange = dateRange s\<rparr>;
          updated = presets s @ [newPreset]
      in s\<lparr>presets := updated\<rparr>)"

definition loadPreset :: "string \<Rightarrow> FilterState \<Rightarrow> FilterState" where
  "loadPreset i s =
     (case find (\<lambda>p. id' p = i) (presets s) of
        Some p \<Rightarrow> s\<lparr>chartFilters := filters p, dateRange := FilterPreset.dateRange p\<rparr>
      | None \<Rightarrow> s)"

definition deletePreset :: "string \<Rightarrow> FilterState \<Rightarrow> FilterState" where
  "deletePreset i s =
     (let updated = filter (\<lambda>p. id' p \<noteq> i) (presets s)
      in s\<lparr>presets := updated\<rparr>)"

text \<open>The mutations of the filters and of the date range, as one type, to run lists of them.\<close>

datatype Mutation =
  DoSetChartFilter ChartFilterUpdate
| DoClearChartFilters
| DoSetDateRange DateRange

fun mutate :: "FilterState \<Rightarrow> Mutation \<Rightarrow> FilterState" where
  "mutate s (DoSetChartFilter kv) = setChartFilter kv s"
| "mutate s DoClearChartFilters = clearChartFilters s"
| "mutate s (DoSetDateRange newRange) = setDateRange newRange s"

text \<open>Example store states and presets used to evaluate the store.\<close>

definition stateBeforeSecondSave :: FilterState where
  "stateBeforeSecondSave =
     setChartFilter (SetVertical (Some Fuel))
       (savePreset 1000 ''first''
          (setChartFilter (SetVertical (Some Restaurant)) (initialState [])))"

definition presetA :: FilterPreset where
  "presetA = \<lparr>id' = ''1000'', name = ''first'', filters = defaultChartFilters,
               dateRange = defaultDateRange\<rparr>"

definition presetB :: FilterPreset where
  "presetB = \<lparr>id' = ''2000'', name = ''second'',
               filters = defaultChartFilters\<lparr>ChartFilters.status := Some Resolved\<rparr>,
               dateRange = defaultDateRange\<rparr>"

definition presetC :: FilterPreset where
  "presetC = \<lparr>id' = ''3000'', name = ''first'', filters = defaultChartFilters,
               dateRange = defaultDateRange\<rparr>"

section \<open>Date-range selection (components/DateRangePicker.tsx)\<close>

text \<open>
  \<open>getPresetDates\<close> reads the clock (\<^verbatim>\<open>new Date()\<close>, the argument \<open>now\<close>) and builds
  \<^verbatim>\<open>today\<close> with the local-time constructor \<^verbatim>\<open>new Date(year, month, date)\<close>. The result
  is the pair of the fields \<^verbatim>\<open>start\<close> and \<^verbatim>\<open>end\<close>.
\<close>

definition getPresetDates :: "TimeZone \<Rightarrow> int \<Rightarrow> Preset \<Rightarrow> Date option \<times> Date option" where
  "getPresetDates tza now p =
     (let today = newDateYMD tza (getFullYear tza now) (getMonth tza now) (getDate tza now)
      in case p of
           last7 \<Rightarrow> (Some (Date (setDate tza today (getDate tza today - 7))), Some (Date today))
         | last30 \<Rightarrow> (Some (Date (setDate tza today (getDate tza today - 30))), Some (Date today))
         | last90 \<Rightarrow> (Some (Date (setDate tza today (getDate tza today - 90))), Some (Date today))
         | ytd \<Rightarrow> (Some (Date (newDateYMD tza (getFullYear tza now) 0 1)), Some (Date today))
         | _ \<Rightarrow> (None, None))"

definition handlePresetSelect :: "TimeZone \<Rightarrow> int \<Rightarrow> Preset \<Rightarrow> FilterState \<Rightarrow> FilterState" where
  "handlePresetSelect tza now p s =
     (if p = custom then s
      else let dates = getPresetDates tza now p
           in setDateRange \<lparr>start = fst dates, end' = snd dates, preset = p\<rparr> s)"

text \<open>
  \<open>handleCustomApply\<close>: the two inputs are date inputs, whose value is empty or a
  \<^verbatim>\<open>YYYY-MM-DD\<close> string; a non-empty one goes through \<^verbatim>\<open>new Date(string)\<close>.
\<close>

definition handleCustomApply :: "string \<Rightarrow> string \<Rightarrow> FilterState \<Rightarrow> FilterState" where
  "handleCustomApply customStart customEnd s =
     (let start = (if customStart \<noteq> [] then Some (parseDate customStart) else None);
          end = (if customEnd \<noteq> [] then Some (parseDate customEnd) else None)
      in setDateRange \<lparr>start = start, end' = end, preset = custom\<rparr> s)"

section \<open>Filtering (App.tsx, components/DataTable.tsx, Charts.tsx, KPICards.tsx)\<close>

text \<open>
  In a condition, \<^verbatim>\<open>null\<close> is false and a \<^verbatim>\<open>Date\<close> object is true, also an invalid
  one; the strings of the enumerations are non-empty and therefore true. So
  \<^verbatim>\<open>dateRange.start || dateRange.end\<close> and \<^verbatim>\<open>if (chartFilters.vertical)\<close> test for
  \<open>Some\<close>.
\<close>

definition dateRangeActive :: "DateRange \<Rightarrow> bool" where
  "dateRangeActive dr \<longleftrightarrow> preset dr \<noteq> all \<and> (start dr \<noteq> None \<or> end' dr \<noteq> None)"

text \<open>The body of the date check, shared by all four components, with its early returns.\<close>

definition inDateRange :: "DateRange \<Rightarrow> ServiceRequest \<Rightarrow> bool" where
  "inDateRange dr d =
     (let date = parseDate (requestDate d)
      in if (case start dr of Some s \<Rightarrow> date_lt date s | None \<Rightarrow> False) then False
         else if (case end' dr of Some e \<Rightarrow> date_gt date e | None \<Rightarrow> False) then False
         else True)"

text \<open>\<open>DashboardContent\<close> (App.tsx): the data handed to the export encoders.\<close>

definition filteredData_Dashboard ::
  "ServiceRequest list \<Rightarrow> ChartFilters \<Rightarrow> DateRange \<Rightarrow> ServiceRequest list" where
  "filteredData_Dashboard serviceRequests cf dr =
     (let result = serviceRequests;
          result = (if dateRangeActive dr then filter (inDateRange dr) result else result);
          result = (case ChartFilters.vertical cf of
                      Some v \<Rightarrow> filter (\<lambda>d. ServiceRequest.vertical d = v) result
                    | None \<Rightarrow> result);
          result = (case ChartFilters.status cf of
                      Some v \<Rightarrow> filter (\<lambda>d. ServiceRequest.status d = v) result
                    | None \<Rightarrow> result);
          result = (case ChartFilters.issueCategory cf of
                      Some v \<Rightarrow> filter (\<lambda>d. ServiceRequest.issueCategory d = v) result
                    | None \<Rightarrow> result);
          result = (case ChartFilters.accountHealth cf of
                      Some v \<Rightarrow> filter (\<lambda>d. ServiceRequest.accountHealth d = v) result
                    | None \<Rightarrow> result)
      in result)"

text \<open>\<open>Charts\<close> and \<open>KPICards\<close>: the date range only.\<close>

definition filteredData_Charts :: "ServiceRequest list \<Rightarrow> DateRange \<Rightarrow> ServiceRequest list" where
  "filteredData_Charts data dr =
     (let result = data;
          result = (if dateRangeActive dr then filter (inDateRange dr) result else result)
      in result)"

definition filteredData_KPICards :: "ServiceRequest list \<Rightarrow> DateRange \<Rightarrow> ServiceRequest list" where
  "filteredData_KPICards data dr =
     (if preset dr = all \<or> (start dr = None \<and> end' dr = None) then data
      else filter (inDateRange dr) data)"

text \<open>
  \<open>DataTable\<close>: the local state of the table. The empty string of a column filter
  (\<^verbatim>\<open>Vertical | ''\<close>) is \<open>None\<close>. \<open>toLowerCase\<close> is modelled on the ASCII letters and
  \<open>includes'\<close> is the test for a contiguous substring.
\<close>

datatype SortKey =
  KRequestId | KAccountName | KVertical | KSiteCount | KIssueCategory | KRequestDate
| KStatus | KUrgency | KPriority | KTimeToRespond | KTimeToResolution | KResolutionDate
| KAccountHealth

datatype SortDirection = asc | desc

record TableState =
  search :: string
  verticalFilter :: "Vertical option"
  statusFilter :: "Status option"
  categoryFilter :: "IssueCategory option"
  urgencyFilter :: "Urgency option"
  priorityFilter :: "Priority option"
  healthFilter :: "AccountHealth option"
  sortKey :: SortKey
  sortDirection :: SortDirection
  currentPage :: int

definition initialTableState :: TableState where
  "initialTableState =
     \<lparr>search = [], verticalFilter = None, statusFilter = None, categoryFilter = None,
      urgencyFilter = None, priorityFilter = None, healthFilter = None,
      sortKey = KRequestDate, sortDirection = desc, currentPage = 1\<rparr>"

definition toLowerCase :: "string \<Rightarrow> string" where
  "toLowerCase s =
     map (\<lambda>c. let n = (of_char c :: nat)
                in if 65 \<le> n \<and> n \<le> 90 then char_of (n + 32) else c) s"

fun includes' :: "string \<Rightarrow> string \<Rightarrow> bool" where
  "includes' [] t \<longleftrightarrow> t = []"
| "includes' (c # s) t \<longleftrightarrow> take (length t) (c # s) = t \<or> includes' s t"

definition matchesChartFilters :: "ChartFilters \<Rightarrow> ServiceRequest \<Rightarrow> bool" where
  "matchesChartFilters cf item \<longleftrightarrow>
     (let matchesChartVertical =
            (ChartFilters.vertical cf = None
             \<or> Some (ServiceRequest.vertical item) = ChartFilters.vertical cf);
          matchesChartStatus =
            (ChartFilters.status cf = None
             \<or> Some (ServiceRequest.status item) = ChartFilters.status cf);
          matchesChartCategory =
            (ChartFilters.issueCategory cf = None
             \<or> Some (ServiceRequest.issueCategory item) = ChartFilters.issueCategory cf);
          matchesChartHealth =
            (ChartFilters.accountHealth cf = None
             \<or> Some (ServiceRequest.accountHealth item) = ChartFilters.accountHealth cf)
      in matchesChartVertical \<and> matchesChartStatus \<and> matchesChartCategory
         \<and> matchesChartHealth)"

definition matchesLocalFilters :: "TableState \<Rightarrow> ServiceRequest \<Rightarrow> bool" where
  "matchesLocalFilters st item \<longleftrightarrow>
     (let matchesSearch =
            (search st = []
             \<or> includes' (toLowerCase (accountName item)) (toLowerCase (search st))
             \<or> includes' (toLowerCase (requestId item)) (toLowerCase (search st)));
          matchesVertical =
            (verticalFilter st = None \<or> Some (ServiceRequest.vertical item) = verticalFilter st);
          matchesStatus =
            (statusFilter st = None \<or> Some (ServiceRequest.status item) = statusFilter st);
          matchesCategory =
            (categoryFilter st = None
             \<or> Some (ServiceRequest.issueCategory item) = categoryFilter st);
          matchesUrgency = (urgencyFilter st = None \<or> Some (urgency item) = urgencyFilter st);
          matchesPriority = (priorityFilter st = None \<or> Some (priority item) = priorityFilter st);
          matchesHealth =
            (healthFilter st = None \<or> Some (ServiceRequest.accountHealth item) = healthFilter st)
      in matchesSearch \<and> matchesVertical \<and> matchesStatus \<and> matchesCategory
         \<and> matchesUrgency \<and> matchesPriority \<and> matchesHealth)"

definition filteredData_DataTable ::
  "ServiceRequest list \<Rightarrow> TableState \<Rightarrow> ChartFilters \<Rightarrow> DateRange \<Rightarrow> ServiceRequest list" where
  "filteredData_DataTable data st cf dr =
     filter (\<lambda>item.
        if dateRangeActive dr \<and> \<not> inDateRange dr item then False
        else matchesLocalFilters st item \<and> matchesChartFilters cf item) data"

text \<open>Example inputs for the filters.\<close>

definition fuelOnly :: ChartFilters where
  "fuelOnly = defaultChartFilters\<lparr>ChartFilters.vertical := Some Fuel\<rparr>"

definition recordDated :: "string \<Rightarrow> ServiceRequest" where
  "recordDated d = exampleA\<lparr>requestDate := d\<rparr>"

definition last7InBogota :: DateRange where
  "last7InBogota =
     FilterState.dateRange
       (handlePresetSelect (fixedOffset (- 18000000)) 1710090000000 last7 (initialState []))"

definition customRangeExample :: DateRange where
  "customRangeExample =
     FilterState.dateRange (handleCustomApply ''2024-03-03'' ''2024-03-10'' (initialState []))"

section \<open>Grouped counts (components/Charts.tsx)\<close>

text \<open>
  \<^verbatim>\<open>counts\<close> is an object used as a dictionary from the labels of one dimension to numbers,
  and \<^verbatim>\<open>Object.entries\<close> lists its string keys in the order of their creation (no label is
  an array index, which would be listed first). The model is an association list in
  creation order, for any type of key. \<open>bump\<close> is the statement
  \<^verbatim>\<open>counts[k] = (counts[k] || 0) + 1\<close>: an existing entry is updated in place, a missing one
  is created at the end.
\<close>

fun bump :: "('k \<times> nat) list \<Rightarrow> 'k \<Rightarrow> ('k \<times> nat) list" where
  "bump [] k = [(k, 0 + 1)]"
| "bump ((k', c) # counts) k =
     (if k' = k then (k', c + 1) # counts else (k', c) # bump counts k)"

definition countBy :: "(ServiceRequest \<Rightarrow> 'k) \<Rightarrow> ServiceRequest list \<Rightarrow> ('k \<times> nat) list" where
  "countBy key filteredData = foldl (\<lambda>counts item. bump counts (key item)) [] filteredData"

definition verticalData :: "ServiceRequest list \<Rightarrow> DateRange \<Rightarrow> (Vertical \<times> nat) list" where
  "verticalData data dr = countBy ServiceRequest.vertical (filteredData_Charts data dr)"

definition statusData :: "ServiceRequest list \<Rightarrow> DateRange \<Rightarrow> (Status \<times> nat) list" where
  "statusData data dr = countBy ServiceRequest.status (filteredData_Charts data dr)"

definition categoryData :: "ServiceRequest list \<Rightarrow> DateRange \<Rightarrow> (IssueCategory \<times> nat) list" where
  "categoryData data dr = countBy ServiceRequest.issueCategory (filteredData_Charts data dr)"

definition healthData :: "ServiceRequest list \<Rightarrow> DateRange \<Rightarrow> (AccountHealth \<times> nat) list" where
  "healthData data dr = countBy ServiceRequest.accountHealth (filteredData_Charts data dr)"

section \<open>KPI cards (components/KPICards.tsx)\<close>

datatype Metric =
  count | resolved | inProgress | responseTime | resolutionTime | churnRisk | slaBreaches

text \<open>
  The value that one round of the loop of \<open>generateSparklineData\<close> pushes for the records
  \<open>dayData\<close> of a day: the \<^verbatim>\<open>switch\<close> on the metric. The thresholds of the last case are
  the literals of the source; the function has no access to the threshold store.
\<close>

definition metricValue :: "Metric \<Rightarrow> ServiceRequest list \<Rightarrow> real" where
  "metricValue metric dayData =
     (case metric of
        count \<Rightarrow> real (length dayData)
      | resolved \<Rightarrow> real (length (filter (\<lambda>d. ServiceRequest.status d = Resolved) dayData))
      | inProgress \<Rightarrow> real (length (filter (\<lambda>d. ServiceRequest.status d = InProgress) dayData))
      | responseTime \<Rightarrow>
          (if length dayData > 0
           then foldl (\<lambda>sum d. sum + timeToRespond d) 0 dayData / real (length dayData)
           else 0)
      | resolutionTime \<Rightarrow>
          (if length dayData > 0
           then foldl (\<lambda>sum d. sum + timeToResolution d) 0 dayData / real (length dayData)
           else 0)
      | churnRisk \<Rightarrow>
          real (length (filter (\<lambda>d. ServiceRequest.accountHealth d = ChurnRisk) dayData))
      | slaBreaches \<Rightarrow>
          real (length (filter (\<lambda>d. timeToRespond d > 12 \<or> timeToResolution d > 72) dayData)))"

text \<open>
  The date string of round \<open>i\<close>: a copy of \<^verbatim>\<open>today\<close> moved back by \<open>i\<close> days with
  \<^verbatim>\<open>setDate\<close> (local time), printed with \<^verbatim>\<open>toISOString\<close> (UTC) and cut at the \<^verbatim>\<open>T\<close>.
\<close>

definition dateStr :: "TimeZone \<Rightarrow> int \<Rightarrow> int \<Rightarrow> string" where
  "dateStr tza today i =
     (let date = setDate tza today (getDate tza today - i)
      in isoDateString date)"

function sparklineLoop ::
  "TimeZone \<Rightarrow> int \<Rightarrow> ServiceRequest list \<Rightarrow> Metric \<Rightarrow> int \<Rightarrow> real list \<Rightarrow> real list" where
  "sparklineLoop tza today data metric i result =
     (if i \<ge> 0
      then let dayData = filter (\<lambda>d. requestDate d = dateStr tza today i) data
           in sparklineLoop tza today data metric (i - 1) (result @ [metricValue metric dayData])
      else result)"
  by pat_completeness auto
termination
  by (relation "measure (\<lambda>(tza, today, data, metric, i, result). nat (i + 1))") auto

declare sparklineLoop.simps [simp del]

definition generateSparklineData ::
  "TimeZone \<Rightarrow> int \<Rightarrow> ServiceRequest list \<Rightarrow> Metric \<Rightarrow> int \<Rightarrow> real list" where
  "generateSparklineData tza today data metric days =
     (let result = sparklineLoop tza today data metric (days - 1) []
      in if list_all (\<lambda>v. v = 0) result then [1, 2, 1, 3, 2, 4, 3] else result)"

text \<open>
  A quotient of two numbers whose divisor may be zero is a JavaScript number that can be
  \<^verbatim>\<open>NaN\<close> or infinite; these values are explicit here.
\<close>

datatype JsNumber = Num real | NaN | PosInfinity | NegInfinity

definition js_div :: "real \<Rightarrow> real \<Rightarrow> JsNumber" where
  "js_div a b =
     (if b \<noteq> 0 then Num (a / b)
      else if a = 0 then NaN
      else if a > 0 then PosInfinity else NegInfinity)"

definition js_times :: "JsNumber \<Rightarrow> real \<Rightarrow> JsNumber" where
  "js_times x b =
     (case x of
        Num a \<Rightarrow> Num (a * b)
      | NaN \<Rightarrow> NaN
      | PosInfinity \<Rightarrow> (if b = 0 then NaN else if b > 0 then PosInfinity else NegInfinity)
      | NegInfinity \<Rightarrow> (if b = 0 then NaN else if b > 0 then NegInfinity else PosInfinity))"

text \<open>
  \<open>KPICard\<close>: \<^verbatim>\<open>previousValue\<close> is an optional property; a missing one and the number
  zero are both false in the condition.
\<close>

definition percentChange :: "real \<Rightarrow> real option \<Rightarrow> real option" where
  "percentChange val previousValue =
     (case previousValue of
        Some p \<Rightarrow> (if p \<noteq> 0 then Some (((val - p) / p) * 100) else None)
      | None \<Rightarrow> None)"

text \<open>
  \<open>KPICards\<close>: the aggregates over the date-filtered data. The subtitles of the cards
  Resolved and In Progress print \<^verbatim>\<open>((count / totalRequests) * 100).toFixed(1)\<close>; the model
  stops at the number that is printed.
\<close>

definition totalRequests :: "ServiceRequest list \<Rightarrow> nat" where
  "totalRequests filteredData = length filteredData"

definition resolvedCount :: "ServiceRequest list \<Rightarrow> nat" where
  "resolvedCount filteredData =
     length (filter (\<lambda>d. ServiceRequest.status d = Resolved) filteredData)"

definition inProgressCount :: "ServiceRequest list \<Rightarrow> nat" where
  "inProgressCount filteredData =
     length (filter (\<lambda>d. ServiceRequest.status d = InProgress) filteredData)"

definition avgResponseTime :: "ServiceRequest list \<Rightarrow> real" where
  "avgResponseTime filteredData =
     (if length filteredData > 0
      then foldl (\<lambda>sum d. sum + timeToRespond d) 0 filteredData / real (length filteredData)
      else 0)"

definition avgResolutionTime :: "ServiceRequest list \<Rightarrow> real" where
  "avgResolutionTime filteredData =
     (if length filteredData > 0
      then foldl (\<lambda>sum d. sum + timeToResolution d) 0 filteredData / real (length filteredData)
      else 0)"

definition resolvedSubtitle :: "ServiceRequest list \<Rightarrow> JsNumber" where
  "resolvedSubtitle filteredData =
     js_times (js_div (real (resolvedCount filteredData)) (real (totalRequests filteredData))) 100"

definition inProgressSubtitle :: "ServiceRequest list \<Rightarrow> JsNumber" where
  "inProgressSubtitle filteredData =
     js_times (js_div (real (inProgressCount filteredData)) (real (totalRequests filteredData))) 100"

section \<open>Table state and pagination (components/DataTable.tsx)\<close>

definition ITEMS_PER_PAGE :: int where
  "ITEMS_PER_PAGE = 50"

text \<open>The \<^verbatim>\<open>onChange\<close> handlers of the search box and of the six column selects.\<close>

definition onSearchChange :: "string \<Rightarrow> TableState \<Rightarrow> TableState" where
  "onSearchChange v st = st\<lparr>search := v, currentPage := 1\<rparr>"

definition onVerticalChange :: "Vertical option \<Rightarrow> TableState \<Rightarrow> TableState" where
  "onVerticalChange v st = st\<lparr>verticalFilter := v, currentPage := 1\<rparr>"

definition onStatusChange :: "Status option \<Rightarrow> TableState \<Rightarrow> TableState" where
  "onStatusChange v st = st\<lparr>statusFilter := v, currentPage := 1\<rparr>"

definition onCategoryChange :: "IssueCategory option \<Rightarrow> TableState \<Rightarrow> TableState" where
  "onCategoryChange v st = st\<lparr>categoryFilter := v, currentPage := 1\<rparr>"

definition onUrgencyChange :: "Urgency option \<Rightarrow> TableState \<Rightarrow> TableState" where
  "onUrgencyChange v st = st\<lparr>urgencyFilter := v, currentPage := 1\<rparr>"

definition onPriorityChange :: "Priority option \<Rightarrow> TableState \<Rightarrow> TableState" where
  "onPriorityChange v st = st\<lparr>priorityFilter := v, currentPage := 1\<rparr>"

definition onHealthChange :: "AccountHealth option \<Rightarrow> TableState \<Rightarrow> TableState" where
  "onHealthChange v st = st\<lparr>healthFilter := v, currentPage := 1\<rparr>"

text \<open>
  The effect that runs when \<^verbatim>\<open>chartFilters\<close> changes (``Sync chart filters with local
  filters''). The component has no effect or handler for a change of \<^verbatim>\<open>dateRange\<close>: the
  table state stays as it is and only the derived data is computed again.
\<close>

definition syncChartFilters :: "ChartFilters \<Rightarrow> TableState \<Rightarrow> TableState" where
  "syncChartFilters cf st =
     (let st = (case ChartFilters.vertical cf of
                  Some v \<Rightarrow> st\<lparr>verticalFilter := Some v\<rparr> | None \<Rightarrow> st);
          st = (case ChartFilters.status cf of
                  Some v \<Rightarrow> st\<lparr>statusFilter := Some v\<rparr> | None \<Rightarrow> st);
          st = (case ChartFilters.issueCategory cf of
                  Some v \<Rightarrow> st\<lparr>categoryFilter := Some v\<rparr> | None \<Rightarrow> st);
          st = (case ChartFilters.accountHealth cf of
                  Some v \<Rightarrow> st\<lparr>healthFilter := Some v\<rparr> | None \<Rightarrow> st)
      in st)"

text \<open>\<^verbatim>\<open>Array.prototype.slice(start, end)\<close>, with its treatment of negative and large indices.\<close>

definition slice :: "'a list \<Rightarrow> int \<Rightarrow> int \<Rightarrow> 'a list" where
  "slice xs a b =
     (let len = int (length xs);
          k = (if a < 0 then max (len + a) 0 else min a len);
          final = (if b < 0 then max (len + b) 0 else min b len)
      in take (nat (final - k)) (drop (nat k) xs))"

text \<open>
  The page shown, from the sorted data (a reordering of the filtered data) and the page
  index of the state.
\<close>

definition totalPages :: "'a list \<Rightarrow> int" where
  "totalPages sortedData = \<lceil>real (length sortedData) / real_of_int ITEMS_PER_PAGE\<rceil>"

definition paginatedData :: "'a list \<Rightarrow> int \<Rightarrow> 'a list" where
  "paginatedData sortedData page =
     slice sortedData ((page - 1) * ITEMS_PER_PAGE) (page * ITEMS_PER_PAGE)"

text \<open>The handlers of the buttons Previous and Next.\<close>

definition onPreviousPage :: "TableState \<Rightarrow> TableState" where
  "onPreviousPage st = st\<lparr>currentPage := max 1 (currentPage st - 1)\<rparr>"

definition onNextPage :: "int \<Rightarrow> TableState \<Rightarrow> TableState" where
  "onNextPage pages st = st\<lparr>currentPage := min pages (currentPage st + 1)\<rparr>"

text \<open>
  Example collection of 102 records with distinct ids, 101 of the vertical Restaurant and one
  of the vertical Fuel: three pages.
\<close>

definition numbered :: "nat \<Rightarrow> ServiceRequest" where
  "numbered n = exampleA\<lparr>requestId := ''A'' @ toString (int n)\<rparr>"

definition manyRecords :: "ServiceRequest list" where
  "manyRecords = map numbered [0..<101] @ [exampleB]"

text \<open>Example table state: the user has moved to the third page.\<close>

definition onPageThree :: TableState where
  "onPageThree = initialTableState\<lparr>currentPage := 3\<rparr>"

text \<open>Example thresholds, stricter than the defaults on the response time.\<close>

definition strictThresholds :: SLAThresholds where
  "strictThresholds = \<lparr>responseTimeHours = 4, resolutionTimeHours = 72\<rparr>"

chapter \<open>Verification\<close>

section \<open>Breach classification\<close>

text \<open>
  Claim C2. For every record collection and every pair of thresholds, \<open>getBreachCount\<close>
  is the number of positions of the collection whose record has a response time above the
  response threshold or a resolution time above the resolution threshold; the response and
  the resolution predicate are the two strict comparisons, and \<open>isBreachingSLA\<close> is their
  disjunction.
\<close>

theorem getBreachCount_spec:
  "getBreachCount th R =
     card {i. i < length R \<and>
              (timeToRespond (R ! i) > responseTimeHours th \<or>
               timeToResolution (R ! i) > resolutionTimeHours th)}
   \<and> (isBreachingResponse th r \<longleftrightarrow> timeToRespond r > responseTimeHours th)
   \<and> (isBreachingResolution th r \<longleftrightarrow> timeToResolution r > resolutionTimeHours th)
   \<and> (isBreachingSLA th r \<longleftrightarrow> isBreachingResponse th r \<or> isBreachingResolution th r)"
  by (simp add: getBreachCount_def isBreachingSLA_def isBreachingResponse_def
      isBreachingResolution_def length_filter_conv_card)

theorem getBreachCount_spec_witness:
  "card {i. i < length [exampleA, exampleB] \<and>
            (timeToRespond ([exampleA, exampleB] ! i) > responseTimeHours defaultThresholds \<or>
             timeToResolution ([exampleA, exampleB] ! i) > resolutionTimeHours defaultThresholds)}
     = 1
   \<and> \<not> isBreachingSLA defaultThresholds exampleA
   \<and> isBreachingSLA defaultThresholds exampleB"
proof -
  have count: "getBreachCount defaultThresholds [exampleA, exampleB] = 1"
    by (simp add: getBreachCount_def isBreachingSLA_def isBreachingResponse_def
        isBreachingResolution_def defaultThresholds_def exampleA_def exampleB_def)
  have a: "\<not> isBreachingSLA defaultThresholds exampleA"
    by (simp add: isBreachingSLA_def isBreachingResponse_def
        isBreachingResolution_def defaultThresholds_def exampleA_def)
  have b: "isBreachingSLA defaultThresholds exampleB"
    by (simp add: isBreachingSLA_def isBreachingResponse_def
        isBreachingResolution_def defaultThresholds_def exampleB_def)
  from getBreachCount_spec [of defaultThresholds "[exampleA, exampleB]" exampleA]
  have "card {i. i < length [exampleA, exampleB] \<and>
            (timeToRespond ([exampleA, exampleB] ! i) > responseTimeHours defaultThresholds \<or>
             timeToResolution ([exampleA, exampleB] ! i) > resolutionTimeHours defaultThresholds)}
        = getBreachCount defaultThresholds [exampleA, exampleB]"
    by simp
  with count a b show ?thesis by simp
qed

section \<open>Presets: save, load, delete\<close>

lemma mutate_presets: "presets (mutate s m) = presets s"
  by (cases m) (simp_all add: setChartFilter_def clearChartFilters_def setDateRange_def)

lemma foldl_mutate_presets: "presets (foldl mutate s ms) = presets s"
  by (induction ms arbitrary: s) (simp_all add: mutate_presets)

lemma find_fresh_append:
  "i \<notin> id' ` set xs \<Longrightarrow> id' p = i \<Longrightarrow> find (\<lambda>q. id' q = i) (xs @ [p]) = Some p"
  by (induction xs) auto

text \<open>
  Claim C5 (as amended). Let a preset be saved at a clock reading whose decimal string is
  not yet the id of a stored preset. Then, after any sequence of \<open>setChartFilter\<close>,
  \<open>clearChartFilters\<close> and \<open>setDateRange\<close> calls, loading the preset by that id puts
  back the chart filters and the date range of the moment of the save, in one step.
\<close>

theorem savePreset_loadPreset_restores:
  assumes fresh: "toString now \<notin> id' ` set (presets s)"
  shows "chartFilters (loadPreset (toString now) (foldl mutate (savePreset now nm s) ms))
           = chartFilters s
       \<and> FilterState.dateRange (loadPreset (toString now) (foldl mutate (savePreset now nm s) ms))
           = FilterState.dateRange s"
proof -
  let ?p = "\<lparr>id' = toString now, name = nm, filters = chartFilters s,
              dateRange = FilterState.dateRange s\<rparr>"
  have "presets (foldl mutate (savePreset now nm s) ms) = presets s @ [?p]"
    by (simp add: foldl_mutate_presets savePreset_def)
  moreover have "find (\<lambda>q. id' q = toString now) (presets s @ [?p]) = Some ?p"
    using fresh by (intro find_fresh_append) simp_all
  ultimately show ?thesis
    by (simp add: loadPreset_def)
qed

theorem savePreset_loadPreset_restores_witness:
  "toString 2000 \<notin> id' ` set (presets stateBeforeSecondSave)
   \<and> chartFilters (loadPreset (toString 2000)
       (foldl mutate (savePreset 2000 ''second'' stateBeforeSecondSave)
          [DoClearChartFilters, DoSetDateRange \<lparr>start = None, end' = None, preset = custom\<rparr>,
           DoSetChartFilter (SetStatus (Some Resolved))]))
     = chartFilters stateBeforeSecondSave
   \<and> FilterState.dateRange (loadPreset (toString 2000)
       (foldl mutate (savePreset 2000 ''second'' stateBeforeSecondSave)
          [DoClearChartFilters, DoSetDateRange \<lparr>start = None, end' = None, preset = custom\<rparr>,
           DoSetChartFilter (SetStatus (Some Resolved))]))
     = FilterState.dateRange stateBeforeSecondSave
   \<and> ChartFilters.vertical (chartFilters stateBeforeSecondSave) = Some Fuel
   \<and> preset (FilterState.dateRange stateBeforeSecondSave) = all"
proof -
  have ids: "toString 2000 \<noteq> toString 1000"
    by code_simp
  have fresh: "toString 2000 \<notin> id' ` set (presets stateBeforeSecondSave)"
    using ids
    by (simp add: stateBeforeSecondSave_def savePreset_def setChartFilter_def initialState_def)
  have before: "ChartFilters.vertical (chartFilters stateBeforeSecondSave) = Some Fuel"
    "preset (FilterState.dateRange stateBeforeSecondSave) = all"
    by (simp_all add: stateBeforeSecondSave_def savePreset_def setChartFilter_def
        initialState_def defaultDateRange_def)
  from fresh before
    savePreset_loadPreset_restores [OF fresh, where nm = "''second''" and ms =
      "[DoClearChartFilters, DoSetDateRange \<lparr>start = None, end' = None, preset = custom\<rparr>,
        DoSetChartFilter (SetStatus (Some Resolved))]"]
  show ?thesis
    by blast
qed

text \<open>
  The id is the millisecond clock reading and \<open>loadPreset\<close> takes the first preset with
  the id: a second save at the same reading is shadowed by the first, and loading its id
  restores the filters of the first save.
\<close>

theorem savePreset_loadPreset_counterexample:
  "chartFilters (loadPreset (toString 1000) (foldl mutate (savePreset 1000 ''second'' stateBeforeSecondSave) []))
     \<noteq> chartFilters stateBeforeSecondSave"
  by (simp add: stateBeforeSecondSave_def loadPreset_def savePreset_def setChartFilter_def
      initialState_def defaultChartFilters_def)

lemma filter_id_notin: "i \<notin> id' ` set xs \<Longrightarrow> filter (\<lambda>p. id' p \<noteq> i) xs = xs"
  by (induction xs) auto

lemma filter_other_id:
  "j \<noteq> i \<Longrightarrow> filter (\<lambda>q. id' q = j) (filter (\<lambda>q. id' q \<noteq> i) xs) = filter (\<lambda>q. id' q = j) xs"
  by (induction xs) auto

text \<open>
  Claim C6 (as amended). \<open>deletePreset\<close> removes every preset that carries the id and
  nothing else: the collection after the call is the collection before it without the
  entries of that id, all others in their order, and the filters and the date range are
  untouched. When exactly one preset carries the id, exactly that entry is
  removed; when none does, the state is unchanged. Ids stay pairwise distinct under
  \<open>savePreset\<close> as long as the clock reading of the save is not already an id of the
  collection.
\<close>

theorem deletePreset_spec:
  "presets (deletePreset i s) = filter (\<lambda>p. id' p \<noteq> i) (presets s)
   \<and> (presets s = xs @ p # ys \<and> id' p = i \<and> i \<notin> id' ` set (xs @ ys)
      \<longrightarrow> presets (deletePreset i s) = xs @ ys)
   \<and> (i \<notin> id' ` set (presets s) \<longrightarrow> deletePreset i s = s)
   \<and> i \<notin> id' ` set (presets (deletePreset i s))
   \<and> (j \<noteq> i \<longrightarrow> filter (\<lambda>q. id' q = j) (presets (deletePreset i s))
                   = filter (\<lambda>q. id' q = j) (presets s))
   \<and> length (presets (deletePreset i s)) + length (filter (\<lambda>q. id' q = i) (presets s))
       = length (presets s)
   \<and> chartFilters (deletePreset i s) = chartFilters s
   \<and> FilterState.dateRange (deletePreset i s) = FilterState.dateRange s
   \<and> (distinct (map id' (presets s)) \<and> toString now \<notin> id' ` set (presets s)
      \<longrightarrow> distinct (map id' (presets (savePreset now nm s))))"
proof (intro conjI impI)
  show "presets (deletePreset i s) = filter (\<lambda>p. id' p \<noteq> i) (presets s)"
    by (simp add: deletePreset_def)
next
  assume a: "presets s = xs @ p # ys \<and> id' p = i \<and> i \<notin> id' ` set (xs @ ys)"
  then have "filter (\<lambda>q. id' q \<noteq> i) xs = xs" "filter (\<lambda>q. id' q \<noteq> i) ys = ys"
    by (auto intro: filter_id_notin)
  with a show "presets (deletePreset i s) = xs @ ys"
    by (simp add: deletePreset_def)
next
  assume "i \<notin> id' ` set (presets s)"
  then show "deletePreset i s = s"
    by (simp add: deletePreset_def filter_id_notin)
next
  show "i \<notin> id' ` set (presets (deletePreset i s))"
    by (auto simp: deletePreset_def)
next
  assume "j \<noteq> i"
  then show "filter (\<lambda>q. id' q = j) (presets (deletePreset i s))
               = filter (\<lambda>q. id' q = j) (presets s)"
    by (simp add: deletePreset_def filter_other_id del: filter_filter)
next
  have "length (filter (\<lambda>q. id' q \<noteq> i) (presets s)) + length (filter (\<lambda>q. \<not> id' q \<noteq> i) (presets s))
          = length (presets s)"
    by (rule sum_length_filter_compl)
  then show "length (presets (deletePreset i s)) + length (filter (\<lambda>q. id' q = i) (presets s))
       = length (presets s)"
    by (simp add: deletePreset_def)
next
  show "chartFilters (deletePreset i s) = chartFilters s"
    by (simp add: deletePreset_def)
next
  show "FilterState.dateRange (deletePreset i s) = FilterState.dateRange s"
    by (simp add: deletePreset_def)
next
  assume "distinct (map id' (presets s)) \<and> toString now \<notin> id' ` set (presets s)"
  then show "distinct (map id' (presets (savePreset now nm s)))"
    by (simp add: savePreset_def)
qed

theorem deletePreset_spec_witness:
  "presets (deletePreset ''2000'' (initialState [presetA, presetB, presetC])) = [presetA, presetC]
   \<and> deletePreset ''4000'' (initialState [presetA, presetB, presetC])
       = initialState [presetA, presetB, presetC]
   \<and> filter (\<lambda>q. id' q = ''3000'') (presets (deletePreset ''2000'' (initialState [presetA, presetB, presetC])))
       = filter (\<lambda>q. id' q = ''3000'') (presets (initialState [presetA, presetB, presetC]))
   \<and> distinct (map id' (presets (savePreset 4000 ''fourth'' (initialState [presetA, presetB, presetC]))))
   \<and> presets (deletePreset ''1000'' (initialState [presetC, presetA, presetB, presetA, presetC]))
       = [presetC, presetB, presetC]"
proof -
  let ?s = "initialState [presetA, presetB, presetC]"
  have ts: "toString 4000 = ''4000''" by code_simp
  have h1: "presets ?s = [presetA] @ presetB # [presetC] \<and> id' presetB = ''2000''
            \<and> ''2000'' \<notin> id' ` set ([presetA] @ [presetC])"
    by (simp add: initialState_def presetA_def presetB_def presetC_def)
  have h2: "''4000'' \<notin> id' ` set (presets ?s)"
    by (simp add: initialState_def presetA_def presetB_def presetC_def)
  have h3: "''3000'' \<noteq> ''2000''" by simp
  have h4: "distinct (map id' (presets ?s)) \<and> toString 4000 \<notin> id' ` set (presets ?s)"
    by (simp add: ts initialState_def presetA_def presetB_def presetC_def)
  note inst = deletePreset_spec [where s = ?s and xs = "[presetA]" and p = presetB and ys = "[presetC]"
      and i = "''2000''" and j = "''3000''" and now = 4000 and nm = "''fourth''"]
  from inst h1 have "presets (deletePreset ''2000'' ?s) = [presetA] @ [presetC]"
    by blast
  then have c1: "presets (deletePreset ''2000'' ?s) = [presetA, presetC]"
    by simp
  from inst h3 have c3: "filter (\<lambda>q. id' q = ''3000'') (presets (deletePreset ''2000'' ?s))
       = filter (\<lambda>q. id' q = ''3000'') (presets ?s)"
    by blast
  from inst h4 have c4: "distinct (map id' (presets (savePreset 4000 ''fourth'' ?s)))"
    by blast
  from deletePreset_spec [where s = ?s and xs = "[]" and p = presetA and ys = "[]"
      and i = "''4000''" and j = "''3000''" and now = 4000 and nm = "''fourth''"] h2
  have c2: "deletePreset ''4000'' ?s = ?s"
    by blast
  from deletePreset_spec [where i = "''1000''"
      and s = "initialState [presetC, presetA, presetB, presetA, presetC]"]
  have "presets (deletePreset ''1000'' (initialState [presetC, presetA, presetB, presetA, presetC]))
      = filter (\<lambda>p. id' p \<noteq> ''1000'')
          (presets (initialState [presetC, presetA, presetB, presetA, presetC]))"
    by blast
  then have c5: "presets (deletePreset ''1000''
        (initialState [presetC, presetA, presetB, presetA, presetC]))
      = [presetC, presetB, presetC]"
    by (simp add: initialState_def presetA_def presetB_def presetC_def)
  from c1 c2 c3 c4 c5 show ?thesis by blast
qed

text \<open>
  Two saves at one clock reading give two presets with one id, and deleting that id removes
  both of them, not exactly one.
\<close>

theorem deletePreset_counterexample:
  "length (presets (deletePreset (toString 1000)
      (savePreset 1000 ''second'' (savePreset 1000 ''first'' (initialState [presetC])))))
   \<noteq> length (presets (savePreset 1000 ''second'' (savePreset 1000 ''first'' (initialState [presetC])))) - 1
   \<and> length (presets (savePreset 1000 ''second'' (savePreset 1000 ''first'' (initialState [presetC]))))
     = 3
   \<and> presets (deletePreset (toString 1000)
      (savePreset 1000 ''second'' (savePreset 1000 ''first'' (initialState [presetC]))))
     = [presetC]"
proof -
  have "id' presetC \<noteq> toString 1000"
    by code_simp
  then show ?thesis
    by (simp add: deletePreset_def savePreset_def initialState_def)
qed

section \<open>Chart filters\<close>

lemma length_filter_mono:
  "(\<And>x. x \<in> set xs \<Longrightarrow> Q x \<Longrightarrow> P x) \<Longrightarrow> length (filter Q xs) \<le> length (filter P xs)"
  by (induction xs) auto

lemma matchesChartFilters_iff:
  "matchesChartFilters F r \<longleftrightarrow>
     (\<forall>v. ChartFilters.vertical F = Some v \<longrightarrow> ServiceRequest.vertical r = v)
     \<and> (\<forall>v. ChartFilters.status F = Some v \<longrightarrow> ServiceRequest.status r = v)
     \<and> (\<forall>v. ChartFilters.issueCategory F = Some v \<longrightarrow> ServiceRequest.issueCategory r = v)
     \<and> (\<forall>v. ChartFilters.accountHealth F = Some v \<longrightarrow> ServiceRequest.accountHealth r = v)"
  unfolding matchesChartFilters_def Let_def
  by (cases "ChartFilters.vertical F"; cases "ChartFilters.status F";
      cases "ChartFilters.issueCategory F"; cases "ChartFilters.accountHealth F") auto

lemma filteredData_Dashboard_eq:
  "filteredData_Dashboard R F dr =
     filter (\<lambda>r. (dateRangeActive dr \<longrightarrow> inDateRange dr r) \<and> matchesChartFilters F r) R"
  unfolding filteredData_Dashboard_def matchesChartFilters_def Let_def
  by (cases "ChartFilters.vertical F"; cases "ChartFilters.status F";
      cases "ChartFilters.issueCategory F"; cases "ChartFilters.accountHealth F")
     (auto intro!: filter_cong)

lemma filteredData_DataTable_eq:
  "filteredData_DataTable R st F dr =
     filter (\<lambda>r. (dateRangeActive dr \<longrightarrow> inDateRange dr r) \<and> matchesLocalFilters st r
                 \<and> matchesChartFilters F r) R"
  unfolding filteredData_DataTable_def by (auto intro!: filter_cong)

lemma matchesChartFilters_mono:
  assumes "\<forall>v. ChartFilters.vertical F = Some v \<longrightarrow> ChartFilters.vertical F' = Some v"
    and "\<forall>v. ChartFilters.status F = Some v \<longrightarrow> ChartFilters.status F' = Some v"
    and "\<forall>v. ChartFilters.issueCategory F = Some v \<longrightarrow> ChartFilters.issueCategory F' = Some v"
    and "\<forall>v. ChartFilters.accountHealth F = Some v \<longrightarrow> ChartFilters.accountHealth F' = Some v"
    and "matchesChartFilters F' r"
  shows "matchesChartFilters F r"
  using assms unfolding matchesChartFilters_iff by auto

text \<open>
  Claim C1. The chart-filtered data, in the export path of \<open>DashboardContent\<close> and in the
  table, is the collection restricted to the records that pass the date check (and, in the
  table, the local filters) and whose field equals the filter value in each dimension with a
  non-null filter; a null dimension imposes no constraint and the four conditions are
  conjoined. The result is part of the collection, and it does not grow when further
  dimensions become non-null.
\<close>

theorem chartFilter_spec:
  "filteredData_Dashboard R F dr =
     filter (\<lambda>r. (dateRangeActive dr \<longrightarrow> inDateRange dr r)
         \<and> (\<forall>v. ChartFilters.vertical F = Some v \<longrightarrow> ServiceRequest.vertical r = v)
         \<and> (\<forall>v. ChartFilters.status F = Some v \<longrightarrow> ServiceRequest.status r = v)
         \<and> (\<forall>v. ChartFilters.issueCategory F = Some v \<longrightarrow> ServiceRequest.issueCategory r = v)
         \<and> (\<forall>v. ChartFilters.accountHealth F = Some v \<longrightarrow> ServiceRequest.accountHealth r = v)) R
   \<and> filteredData_DataTable R st F dr =
     filter (\<lambda>r. (dateRangeActive dr \<longrightarrow> inDateRange dr r) \<and> matchesLocalFilters st r
         \<and> (\<forall>v. ChartFilters.vertical F = Some v \<longrightarrow> ServiceRequest.vertical r = v)
         \<and> (\<forall>v. ChartFilters.status F = Some v \<longrightarrow> ServiceRequest.status r = v)
         \<and> (\<forall>v. ChartFilters.issueCategory F = Some v \<longrightarrow> ServiceRequest.issueCategory r = v)
         \<and> (\<forall>v. ChartFilters.accountHealth F = Some v \<longrightarrow> ServiceRequest.accountHealth r = v)) R
   \<and> set (filteredData_Dashboard R F dr) \<subseteq> set R
   \<and> set (filteredData_DataTable R st F dr) \<subseteq> set R
   \<and> ((\<forall>v. ChartFilters.vertical F = Some v \<longrightarrow> ChartFilters.vertical F' = Some v)
      \<and> (\<forall>v. ChartFilters.status F = Some v \<longrightarrow> ChartFilters.status F' = Some v)
      \<and> (\<forall>v. ChartFilters.issueCategory F = Some v \<longrightarrow> ChartFilters.issueCategory F' = Some v)
      \<and> (\<forall>v. ChartFilters.accountHealth F = Some v \<longrightarrow> ChartFilters.accountHealth F' = Some v)
      \<longrightarrow> length (filteredData_Dashboard R F' dr) \<le> length (filteredData_Dashboard R F dr)
        \<and> length (filteredData_DataTable R st F' dr) \<le> length (filteredData_DataTable R st F dr))"
proof (intro conjI impI)
  show "filteredData_Dashboard R F dr =
     filter (\<lambda>r. (dateRangeActive dr \<longrightarrow> inDateRange dr r)
         \<and> (\<forall>v. ChartFilters.vertical F = Some v \<longrightarrow> ServiceRequest.vertical r = v)
         \<and> (\<forall>v. ChartFilters.status F = Some v \<longrightarrow> ServiceRequest.status r = v)
         \<and> (\<forall>v. ChartFilters.issueCategory F = Some v \<longrightarrow> ServiceRequest.issueCategory r = v)
         \<and> (\<forall>v. ChartFilters.accountHealth F = Some v \<longrightarrow> ServiceRequest.accountHealth r = v)) R"
    by (simp only: filteredData_Dashboard_eq matchesChartFilters_iff)
  show "filteredData_DataTable R st F dr =
     filter (\<lambda>r. (dateRangeActive dr \<longrightarrow> inDateRange dr r) \<and> matchesLocalFilters st r
         \<and> (\<forall>v. ChartFilters.vertical F = Some v \<longrightarrow> ServiceRequest.vertical r = v)
         \<and> (\<forall>v. ChartFilters.status F = Some v \<longrightarrow> ServiceRequest.status r = v)
         \<and> (\<forall>v. ChartFilters.issueCategory F = Some v \<longrightarrow> ServiceRequest.issueCategory r = v)
         \<and> (\<forall>v. ChartFilters.accountHealth F = Some v \<longrightarrow> ServiceRequest.accountHealth r = v)) R"
    by (simp only: filteredData_DataTable_eq matchesChartFilters_iff)
  show "set (filteredData_Dashboard R F dr) \<subseteq> set R"
    by (simp only: filteredData_Dashboard_eq filter_is_subset)
  show "set (filteredData_DataTable R st F dr) \<subseteq> set R"
    by (simp only: filteredData_DataTable_eq filter_is_subset)
next
  assume ext: "(\<forall>v. ChartFilters.vertical F = Some v \<longrightarrow> ChartFilters.vertical F' = Some v)
      \<and> (\<forall>v. ChartFilters.status F = Some v \<longrightarrow> ChartFilters.status F' = Some v)
      \<and> (\<forall>v. ChartFilters.issueCategory F = Some v \<longrightarrow> ChartFilters.issueCategory F' = Some v)
      \<and> (\<forall>v. ChartFilters.accountHealth F = Some v \<longrightarrow> ChartFilters.accountHealth F' = Some v)"
  then have m: "\<And>r. matchesChartFilters F' r \<Longrightarrow> matchesChartFilters F r"
    by (blast intro: matchesChartFilters_mono)
  show "length (filteredData_Dashboard R F' dr) \<le> length (filteredData_Dashboard R F dr)"
    unfolding filteredData_Dashboard_eq by (rule length_filter_mono) (simp add: m)
  show "length (filteredData_DataTable R st F' dr) \<le> length (filteredData_DataTable R st F dr)"
    unfolding filteredData_DataTable_eq by (rule length_filter_mono) (simp add: m)
qed

theorem chartFilter_spec_witness:
  "ChartFilters.vertical defaultChartFilters = None
   \<and> ChartFilters.vertical fuelOnly = Some Fuel
   \<and> ChartFilters.status defaultChartFilters = ChartFilters.status fuelOnly
   \<and> ChartFilters.issueCategory defaultChartFilters = ChartFilters.issueCategory fuelOnly
   \<and> ChartFilters.accountHealth defaultChartFilters = ChartFilters.accountHealth fuelOnly
   \<and> length (filteredData_Dashboard [exampleA, exampleB] fuelOnly defaultDateRange)
       \<le> length (filteredData_Dashboard [exampleA, exampleB] defaultChartFilters defaultDateRange)
   \<and> filteredData_Dashboard [exampleA, exampleB] fuelOnly defaultDateRange = [exampleB]
   \<and> filteredData_DataTable [exampleA, exampleB] initialTableState fuelOnly defaultDateRange
       = [exampleB]"
proof -
  have ext: "(\<forall>v. ChartFilters.vertical defaultChartFilters = Some v \<longrightarrow> ChartFilters.vertical fuelOnly = Some v)
      \<and> (\<forall>v. ChartFilters.status defaultChartFilters = Some v \<longrightarrow> ChartFilters.status fuelOnly = Some v)
      \<and> (\<forall>v. ChartFilters.issueCategory defaultChartFilters = Some v
             \<longrightarrow> ChartFilters.issueCategory fuelOnly = Some v)
      \<and> (\<forall>v. ChartFilters.accountHealth defaultChartFilters = Some v
             \<longrightarrow> ChartFilters.accountHealth fuelOnly = Some v)"
    by (simp add: defaultChartFilters_def fuelOnly_def)
  have inactive: "\<not> dateRangeActive defaultDateRange"
    by (simp add: dateRangeActive_def defaultDateRange_def)
  have fuel: "ChartFilters.vertical fuelOnly = Some Fuel" "ChartFilters.status fuelOnly = None"
    "ChartFilters.issueCategory fuelOnly = None" "ChartFilters.accountHealth fuelOnly = None"
    by (simp_all add: defaultChartFilters_def fuelOnly_def)
  have recs: "ServiceRequest.vertical exampleA = Restaurant" "ServiceRequest.vertical exampleB = Fuel"
    by (simp_all add: exampleA_def exampleB_def)
  have loc: "matchesLocalFilters initialTableState exampleB"
    by (simp add: matchesLocalFilters_def initialTableState_def)
  note spec = chartFilter_spec [of "[exampleA, exampleB]" fuelOnly defaultDateRange
      initialTableState fuelOnly]
  note mono = chartFilter_spec [of "[exampleA, exampleB]" defaultChartFilters defaultDateRange
      initialTableState fuelOnly]
  from mono ext
  have le: "length (filteredData_Dashboard [exampleA, exampleB] fuelOnly defaultDateRange)
       \<le> length (filteredData_Dashboard [exampleA, exampleB] defaultChartFilters defaultDateRange)"
    by blast
  from spec have "filteredData_Dashboard [exampleA, exampleB] fuelOnly defaultDateRange =
     filter (\<lambda>r. (dateRangeActive defaultDateRange \<longrightarrow> inDateRange defaultDateRange r)
         \<and> (\<forall>v. ChartFilters.vertical fuelOnly = Some v \<longrightarrow> ServiceRequest.vertical r = v)
         \<and> (\<forall>v. ChartFilters.status fuelOnly = Some v \<longrightarrow> ServiceRequest.status r = v)
         \<and> (\<forall>v. ChartFilters.issueCategory fuelOnly = Some v \<longrightarrow> ServiceRequest.issueCategory r = v)
         \<and> (\<forall>v. ChartFilters.accountHealth fuelOnly = Some v \<longrightarrow> ServiceRequest.accountHealth r = v))
       [exampleA, exampleB]"
    by blast
  then have d: "filteredData_Dashboard [exampleA, exampleB] fuelOnly defaultDateRange = [exampleB]"
    by (simp add: inactive fuel recs)
  from spec have "filteredData_DataTable [exampleA, exampleB] initialTableState fuelOnly defaultDateRange =
     filter (\<lambda>r. (dateRangeActive defaultDateRange \<longrightarrow> inDateRange defaultDateRange r)
         \<and> matchesLocalFilters initialTableState r
         \<and> (\<forall>v. ChartFilters.vertical fuelOnly = Some v \<longrightarrow> ServiceRequest.vertical r = v)
         \<and> (\<forall>v. ChartFilters.status fuelOnly = Some v \<longrightarrow> ServiceRequest.status r = v)
         \<and> (\<forall>v. ChartFilters.issueCategory fuelOnly = Some v \<longrightarrow> ServiceRequest.issueCategory r = v)
         \<and> (\<forall>v. ChartFilters.accountHealth fuelOnly = Some v \<longrightarrow> ServiceRequest.accountHealth r = v))
       [exampleA, exampleB]"
    by blast
  then have t: "filteredData_DataTable [exampleA, exampleB] initialTableState fuelOnly defaultDateRange
       = [exampleB]"
    by (simp add: inactive fuel recs loc)
  have fields: "ChartFilters.vertical defaultChartFilters = None"
    "ChartFilters.status defaultChartFilters = ChartFilters.status fuelOnly"
    "ChartFilters.issueCategory defaultChartFilters = ChartFilters.issueCategory fuelOnly"
    "ChartFilters.accountHealth defaultChartFilters = ChartFilters.accountHealth fuelOnly"
    by (simp_all add: defaultChartFilters_def fuelOnly_def)
  from fields fuel(1) le d t show ?thesis by blast
qed

section \<open>Date range\<close>

text \<open>
  On time values the date check is the comparison the specification gives: a record whose
  date parses passes iff the preset is \<open>all\<close> or its time value lies between the bounds
  that are set.
\<close>

lemma inDateRange_timestamps:
  assumes "parseDate (requestDate r) = Date t"
    and "\<forall>d. start dr = Some d \<longrightarrow> d \<noteq> InvalidDate"
    and "\<forall>d. end' dr = Some d \<longrightarrow> d \<noteq> InvalidDate"
  shows "(dateRangeActive dr \<longrightarrow> inDateRange dr r) \<longleftrightarrow>
           preset dr = all
           \<or> ((start dr = None \<or> (\<exists>s. start dr = Some (Date s) \<and> s \<le> t))
              \<and> (end' dr = None \<or> (\<exists>e. end' dr = Some (Date e) \<and> t \<le> e)))"
proof (cases "start dr")
  case None
  then show ?thesis
    using assms by (cases "end' dr"; cases "the (end' dr)")
        (auto simp: dateRangeActive_def inDateRange_def date_lt_def date_gt_def)
next
  case (Some a)
  then show ?thesis
    using assms by (cases a; cases "end' dr"; cases "the (end' dr)")
        (auto simp: dateRangeActive_def inDateRange_def date_lt_def date_gt_def)
qed

text \<open>
  With local time equal to UTC the bounds of \<open>last7\<close> are midnights UTC, like the record
  dates, and the records dated on the start day and on the end day pass.
\<close>

lemma last7_in_UTC:
  "filteredData_DataTable
     [recordDated ''2024-03-02'', recordDated ''2024-03-03'', recordDated ''2024-03-10'',
      recordDated ''2024-03-11'']
     initialTableState defaultChartFilters
     (FilterState.dateRange (handlePresetSelect (fixedOffset 0) 1710072000000 last7 (initialState [])))
   = [recordDated ''2024-03-03'', recordDated ''2024-03-10'']"
  by code_simp

text \<open>
  Claim C9. The bounds of a preset are local midnights (\<^verbatim>\<open>new Date(year, month, date)\<close>),
  the date of a record is midnight UTC (\<^verbatim>\<open>new Date('YYYY-MM-DD')\<close>), and the check compares
  the two time values. In a zone five hours behind UTC, with the clock at noon of 2024-03-10,
  \<open>last7\<close> sets the start to local midnight of 2024-03-03 and the end to local midnight of
  2024-03-10; the record dated 2024-03-02 is excluded and the one dated 2024-03-05 is
  included, but the record dated 2024-03-03, the start day itself, is excluded too. The
  custom range over the same two days, whose bounds are parsed like the record dates,
  includes it.
\<close>

theorem last7_excludes_start_day:
  "last7InBogota =
     \<lparr>start = Some (Date 1709442000000), end' = Some (Date 1710046800000), preset = last7\<rparr>
   \<and> getFullYear (fixedOffset (- 18000000)) 1709442000000 = 2024
   \<and> getMonth (fixedOffset (- 18000000)) 1709442000000 = 2
   \<and> getDate (fixedOffset (- 18000000)) 1709442000000 = 3
   \<and> TimeWithinDay (LocalTime (fixedOffset (- 18000000)) 1709442000000) = 0
   \<and> getFullYear (fixedOffset (- 18000000)) 1710046800000 = 2024
   \<and> getMonth (fixedOffset (- 18000000)) 1710046800000 = 2
   \<and> getDate (fixedOffset (- 18000000)) 1710046800000 = 10
   \<and> TimeWithinDay (LocalTime (fixedOffset (- 18000000)) 1710046800000) = 0
   \<and> filteredData_DataTable
         [recordDated ''2024-03-02'', recordDated ''2024-03-03'', recordDated ''2024-03-05'']
         initialTableState defaultChartFilters last7InBogota
       = [recordDated ''2024-03-05'']
   \<and> filteredData_DataTable
         [recordDated ''2024-03-02'', recordDated ''2024-03-03'', recordDated ''2024-03-05'']
         initialTableState defaultChartFilters customRangeExample
       = [recordDated ''2024-03-03'', recordDated ''2024-03-05'']"
  by code_simp

section \<open>Grouped counts\<close>

lemma bump_present:
  "distinct ks \<Longrightarrow> x \<in> set ks \<Longrightarrow>
     bump (map (\<lambda>k. (k, g k)) ks) x = map (\<lambda>k. (k, if k = x then g k + 1 else g k)) ks"
  by (induction ks) auto

lemma bump_absent:
  "x \<notin> set ks \<Longrightarrow> bump (map (\<lambda>k. (k, g k)) ks) x = map (\<lambda>k. (k, g k)) ks @ [(x, 1)]"
  by (induction ks) auto

lemma countBy_snoc: "countBy key (xs @ [x]) = bump (countBy key xs) (key x)"
  by (simp add: countBy_def)

lemma countBy_eq:
  "countBy key xs =
     map (\<lambda>k. (k, length (filter (\<lambda>x. key x = k) xs))) (rev (remdups (rev (map key xs))))"
proof (induction xs rule: rev_induct)
  case Nil
  show ?case by (simp add: countBy_def)
next
  case (snoc x xs)
  let ?ks = "rev (remdups (rev (map key xs)))"
  have d: "distinct ?ks" by simp
  have s: "set ?ks = key ` set xs" by simp
  show ?case
  proof (cases "key x \<in> key ` set xs")
    case True
    then have "bump (countBy key xs) (key x) =
        map (\<lambda>k. (k, if k = key x then length (filter (\<lambda>y. key y = k) xs) + 1
                       else length (filter (\<lambda>y. key y = k) xs))) ?ks"
      unfolding snoc.IH using d s by (intro bump_present) auto
    with True show ?thesis
      by (simp add: countBy_snoc) 
  next
    case False
    then have "bump (countBy key xs) (key x) =
        map (\<lambda>k. (k, length (filter (\<lambda>y. key y = k) xs))) ?ks @ [(key x, 1)]"
      unfolding snoc.IH using s by (intro bump_absent) auto
    moreover from False have "filter (\<lambda>y. key y = key x) xs = []"
      by (force simp: filter_empty_conv image_iff)
    ultimately show ?thesis
      using False by (auto simp add: countBy_snoc image_iff)
  qed
qed

text \<open>
  Claim C8. The grouped counts of a dimension list each distinct value of the dimension
  once, in the order in which the values first occur in the (date-filtered) collection, each
  with the number of records of its partition. (\<open>remdups\<close> keeps the last occurrence of each
  element, so between the two reversals it keeps the first.) For the statuses Resolved, then
  In Progress, the result is Resolved with 1, then In Progress with 1: the order of first
  occurrence, not the alphabetical one.
\<close>

theorem grouping_first_occurrence:
  "countBy key xs =
     map (\<lambda>k. (k, length (filter (\<lambda>x. key x = k) xs))) (rev (remdups (rev (map key xs))))
   \<and> verticalData data dr =
     map (\<lambda>k. (k, length (filter (\<lambda>x. ServiceRequest.vertical x = k) (filteredData_Charts data dr))))
       (rev (remdups (rev (map ServiceRequest.vertical (filteredData_Charts data dr)))))
   \<and> statusData data dr =
     map (\<lambda>k. (k, length (filter (\<lambda>x. ServiceRequest.status x = k) (filteredData_Charts data dr))))
       (rev (remdups (rev (map ServiceRequest.status (filteredData_Charts data dr)))))
   \<and> categoryData data dr =
     map (\<lambda>k. (k, length (filter (\<lambda>x. ServiceRequest.issueCategory x = k)
                           (filteredData_Charts data dr))))
       (rev (remdups (rev (map ServiceRequest.issueCategory (filteredData_Charts data dr)))))
   \<and> healthData data dr =
     map (\<lambda>k. (k, length (filter (\<lambda>x. ServiceRequest.accountHealth x = k)
                           (filteredData_Charts data dr))))
       (rev (remdups (rev (map ServiceRequest.accountHealth (filteredData_Charts data dr)))))
   \<and> statusData [exampleA, exampleB] defaultDateRange = [(Resolved, 1), (InProgress, 1)]"
proof -
  have "statusData [exampleA, exampleB] defaultDateRange = [(Resolved, 1), (InProgress, 1)]"
    by code_simp
  then show ?thesis
    by (simp only: verticalData_def statusData_def categoryData_def healthData_def countBy_eq
        simp_thms)
qed

theorem grouping_first_occurrence_witness:
  "verticalData [exampleA, exampleB, exampleA] defaultDateRange = [(Restaurant, 2), (Fuel, 1)]"
proof -
  have f: "filteredData_Charts [exampleA, exampleB, exampleA] defaultDateRange
             = [exampleA, exampleB, exampleA]"
    by (simp add: filteredData_Charts_def dateRangeActive_def defaultDateRange_def)
  have v: "ServiceRequest.vertical exampleA = Restaurant" "ServiceRequest.vertical exampleB = Fuel"
    by (simp_all add: exampleA_def exampleB_def)
  from grouping_first_occurrence [of ServiceRequest.vertical "[]"
      "[exampleA, exampleB, exampleA]" defaultDateRange]
  have "verticalData [exampleA, exampleB, exampleA] defaultDateRange =
     map (\<lambda>k. (k, length (filter (\<lambda>x. ServiceRequest.vertical x = k)
             (filteredData_Charts [exampleA, exampleB, exampleA] defaultDateRange))))
       (rev (remdups (rev (map ServiceRequest.vertical
             (filteredData_Charts [exampleA, exampleB, exampleA] defaultDateRange)))))"
    by blast
  then show ?thesis
    by (simp add: f v)
qed

section \<open>Sparkline series\<close>

lemma sparklineLoop_eq:
  "- 1 \<le> i \<Longrightarrow>
     sparklineLoop tza today data metric i result =
       result @ map (\<lambda>j. metricValue metric (filter (\<lambda>d. requestDate d = dateStr tza today j) data))
                    (rev [0..i])"
proof (induction tza today data metric i result rule: sparklineLoop.induct)
  case (1 tza today data metric i result)
  show ?case
  proof (cases "0 \<le> i")
    case True
    then have u: "[0..i] = [0..i - 1] @ [i]"
      by (simp add: upto_rec2)
    from True have "- 1 \<le> i - 1" by simp
    with "1.IH" [OF True refl] True show ?thesis
      by (subst sparklineLoop.simps) (simp add: u Let_def)
  next
    case False
    with "1.prems" have "i = - 1" by simp
    then show ?thesis
      by (subst sparklineLoop.simps) simp
  qed
qed

lemma week: "rev [0..(6::int)] = [6, 5, 4, 3, 2, 1, 0]"
  by code_simp

text \<open>
  The loop for the default window of seven days: one point for each round from 6 down to 0,
  and the placeholder in place of an all-zero series.
\<close>

lemma generateSparklineData_week:
  "generateSparklineData tza today data metric 7 =
     (let series =
            map (\<lambda>j. metricValue metric (filter (\<lambda>d. requestDate d = dateStr tza today j) data))
              [6, 5, 4, 3, 2, 1, 0]
      in if (\<forall>v \<in> set series. v = 0) then [1, 2, 1, 3, 2, 4, 3] else series)"
proof -
  have "sparklineLoop tza today data metric (7 - 1) [] =
          map (\<lambda>j. metricValue metric (filter (\<lambda>d. requestDate d = dateStr tza today j) data))
            [6, 5, 4, 3, 2, 1, 0]"
    by (subst sparklineLoop_eq) (simp_all add: week)
  then show ?thesis
    unfolding generateSparklineData_def Let_def list_all_iff by simp
qed

lemma foldl_plus_sum_list:
  "foldl (\<lambda>sum d. sum + f d) a xs = a + sum_list (map f xs)"
  for a :: real
  by (induction xs arbitrary: a) simp_all

text \<open>The value of a point, metric by metric.\<close>

lemma metricValue_reducers:
  "metricValue count dayData = real (length dayData)"
  "metricValue resolved dayData =
     real (length (filter (\<lambda>d. ServiceRequest.status d = Resolved) dayData))"
  "metricValue inProgress dayData =
     real (length (filter (\<lambda>d. ServiceRequest.status d = InProgress) dayData))"
  "metricValue responseTime dayData =
     (if dayData = [] then 0 else sum_list (map timeToRespond dayData) / real (length dayData))"
  "metricValue resolutionTime dayData =
     (if dayData = [] then 0 else sum_list (map timeToResolution dayData) / real (length dayData))"
  "metricValue churnRisk dayData =
     real (length (filter (\<lambda>d. ServiceRequest.accountHealth d = ChurnRisk) dayData))"
  "metricValue slaBreaches dayData =
     real (length (filter (\<lambda>d. timeToRespond d > 12 \<or> timeToResolution d > 72) dayData))"
  by (simp_all add: metricValue_def foldl_plus_sum_list)

text \<open>
  Claim C3. The replacement of an all-zero series by the placeholder is as the claim says
  (\<open>generateSparklineData_week\<close>), but the seven points are not one per calendar day. Round
  \<open>i\<close> moves the clock reading back by \<open>i\<close> days in local time and then prints its date in
  UTC. In New York on 2024-03-10, the day the clocks go forward, at 19:30 local time: the
  readings of today (local day 10) and of yesterday (local day 9) both print 2024-03-10, so
  the seven strings cover six days, from 2024-03-05 to 2024-03-10; the record dated
  2024-03-10 is counted in two points, and the record dated 2024-03-04, six local days back,
  in none. Without any clock change, in a zone five hours behind UTC at 20:00 local time of
  2024-03-10, the last point is that of 2024-03-11 and the record of the local day is the
  sixth point.
\<close>

theorem sparkline_day_counted_twice:
  "map (dateStr newYork2024 1710113400000) [6, 5, 4, 3, 2, 1, 0]
     = [''2024-03-05'', ''2024-03-06'', ''2024-03-07'', ''2024-03-08'', ''2024-03-09'',
        ''2024-03-10'', ''2024-03-10'']
   \<and> getFullYear newYork2024 1710113400000 = 2024
   \<and> getMonth newYork2024 1710113400000 = 2
   \<and> getDate newYork2024 1710113400000 = 10
   \<and> getDate newYork2024
        (setDate newYork2024 1710113400000 (getDate newYork2024 1710113400000 - 1)) = 9
   \<and> getDate newYork2024
        (setDate newYork2024 1710113400000 (getDate newYork2024 1710113400000 - 6)) = 4
   \<and> generateSparklineData newYork2024 1710113400000
        [recordDated ''2024-03-09'', recordDated ''2024-03-10''] count 7
       = [0, 0, 0, 0, 1, 1, 1]
   \<and> generateSparklineData newYork2024 1710113400000 [recordDated ''2024-03-04''] count 7
       = [1, 2, 1, 3, 2, 4, 3]
   \<and> getDate (fixedOffset (- 18000000)) 1710118800000 = 10
   \<and> dateStr (fixedOffset (- 18000000)) 1710118800000 0 = ''2024-03-11''
   \<and> generateSparklineData (fixedOffset (- 18000000)) 1710118800000
        [recordDated ''2024-03-10''] count 7
       = [0, 0, 0, 0, 0, 1, 0]"
  by code_simp

lemma thresholds_differ:
  fixes p q :: real
  assumes "p \<noteq> 12 \<or> q \<noteq> 72"
  shows "\<exists>a b. 0 \<le> a \<and> 0 \<le> b \<and> ((a > 12 \<or> b > 72) \<noteq> (a > p \<or> b > q))"
proof -
  consider "p < 12" | "p > 12" "q \<ge> 0" | "p > 12" "q < 0" | "p = 12" "q < 72" | "p = 12" "q > 72"
    using assms by linarith
  then show ?thesis
  proof cases
    case 1
    then have "0 \<le> (12::real) \<and> 0 \<le> (0::real) \<and> (((12::real) > 12 \<or> (0::real) > 72) \<noteq> (12 > p \<or> 0 > q))"
      by simp
    then show ?thesis by blast
  next
    case 2
    then have "0 \<le> p \<and> 0 \<le> (0::real) \<and> ((p > 12 \<or> (0::real) > 72) \<noteq> (p > p \<or> 0 > q))"
      by simp
    then show ?thesis by blast
  next
    case 3
    then have "0 \<le> (0::real) \<and> 0 \<le> (0::real) \<and> (((0::real) > 12 \<or> (0::real) > 72) \<noteq> (0 > p \<or> 0 > q))"
      by simp
    then show ?thesis by blast
  next
    case 4
    then have "0 \<le> (0::real) \<and> 0 \<le> (72::real) \<and> (((0::real) > 12 \<or> (72::real) > 72) \<noteq> (0 > p \<or> 72 > q))"
      by simp
    then show ?thesis by blast
  next
    case 5
    then have "0 \<le> (0::real) \<and> 0 \<le> q \<and> (((0::real) > 12 \<or> q > 72) \<noteq> (0 > p \<or> q > q))"
      by simp
    then show ?thesis by blast
  qed
qed

lemma last_series:
  "last (generateSparklineData tza today data metric 7) =
     (if \<forall>j \<in> {0, 1, 2, 3, 4, 5, 6}.
           metricValue metric (filter (\<lambda>d. requestDate d = dateStr tza today j) data) = 0
      then 3
      else metricValue metric (filter (\<lambda>d. requestDate d = dateStr tza today 0) data))"
  unfolding generateSparklineData_week Let_def by auto

lemma metricValue_slaBreaches:
  "metricValue slaBreaches dayData = real (getBreachCount defaultThresholds dayData)"
proof -
  have "isBreachingSLA defaultThresholds = (\<lambda>d. timeToRespond d > 12 \<or> timeToResolution d > 72)"
    by (rule ext) (simp add: isBreachingSLA_def isBreachingResponse_def
        isBreachingResolution_def defaultThresholds_def)
  then show ?thesis
    by (simp add: metricValue_def getBreachCount_def)
qed

text \<open>
  Claim C10. The point of the metric \<open>slaBreaches\<close> counts the records with a response time
  above 12 or a resolution time above 72, which is the breach count under the default
  thresholds whatever thresholds are configured. For any configured thresholds other than
  12 and 72 there is a collection (of records with non-negative durations) on which the
  point of today differs from \<open>getBreachCount\<close> of today's records, and so does the last
  element of the series that is returned.
\<close>

theorem sparkline_breaches_ignore_thresholds:
  "metricValue slaBreaches dayData =
     real (length (filter (\<lambda>d. timeToRespond d > 12 \<or> timeToResolution d > 72) dayData))
   \<and> metricValue slaBreaches dayData = real (getBreachCount defaultThresholds dayData)
   \<and> (responseTimeHours th \<noteq> 12 \<or> resolutionTimeHours th \<noteq> 72 \<longrightarrow>
       (\<exists>data. (\<forall>d \<in> set data. 0 \<le> timeToRespond d \<and> 0 \<le> timeToResolution d)
          \<and> metricValue slaBreaches (filter (\<lambda>d. requestDate d = dateStr tza today 0) data)
              \<noteq> real (getBreachCount th (filter (\<lambda>d. requestDate d = dateStr tza today 0) data))
          \<and> last (generateSparklineData tza today data slaBreaches 7)
              \<noteq> real (getBreachCount th (filter (\<lambda>d. requestDate d = dateStr tza today 0) data))))"
proof (intro conjI impI)
  show "metricValue slaBreaches dayData =
     real (length (filter (\<lambda>d. timeToRespond d > 12 \<or> timeToResolution d > 72) dayData))"
    by (simp add: metricValue_def)
  show "metricValue slaBreaches dayData = real (getBreachCount defaultThresholds dayData)"
    by (rule metricValue_slaBreaches)
next
  assume "responseTimeHours th \<noteq> 12 \<or> resolutionTimeHours th \<noteq> 72"
  from thresholds_differ [OF this] obtain a b :: real
    where ab: "0 \<le> a" "0 \<le> b"
      "(a > 12 \<or> b > 72) \<noteq> (a > responseTimeHours th \<or> b > resolutionTimeHours th)"
    by blast
  define r where "r = exampleA\<lparr>requestDate := dateStr tza today 0, timeToRespond := a,
    timeToResolution := b\<rparr>"
  let ?day = "filter (\<lambda>d. requestDate d = dateStr tza today 0) [r]"
  have day: "?day = [r]" by (simp add: r_def)
  have hard: "metricValue slaBreaches [r] = (if a > 12 \<or> b > 72 then 1 else 0)"
    by (simp add: metricValue_def r_def)
  have conf: "real (getBreachCount th [r])
      = (if a > responseTimeHours th \<or> b > resolutionTimeHours th then 1 else 0)"
    by (simp add: getBreachCount_def isBreachingSLA_def isBreachingResponse_def
        isBreachingResolution_def r_def)
  have ne: "metricValue slaBreaches [r] \<noteq> real (getBreachCount th [r])"
    unfolding hard conf using ab(3) by auto
  have three: "real (getBreachCount th [r]) \<noteq> 3"
    unfolding conf by simp
  have "last (generateSparklineData tza today [r] slaBreaches 7) \<noteq> real (getBreachCount th [r])"
    unfolding last_series day using ne three by (simp split: if_splits)
  with ne ab(1,2) have "(\<forall>d \<in> set [r]. 0 \<le> timeToRespond d \<and> 0 \<le> timeToResolution d)
          \<and> metricValue slaBreaches ?day \<noteq> real (getBreachCount th ?day)
          \<and> last (generateSparklineData tza today [r] slaBreaches 7)
              \<noteq> real (getBreachCount th ?day)"
    unfolding day by (simp add: r_def)
  then show "\<exists>data. (\<forall>d \<in> set data. 0 \<le> timeToRespond d \<and> 0 \<le> timeToResolution d)
          \<and> metricValue slaBreaches (filter (\<lambda>d. requestDate d = dateStr tza today 0) data)
              \<noteq> real (getBreachCount th (filter (\<lambda>d. requestDate d = dateStr tza today 0) data))
          \<and> last (generateSparklineData tza today data slaBreaches 7)
              \<noteq> real (getBreachCount th (filter (\<lambda>d. requestDate d = dateStr tza today 0) data))"
    by (rule exI)
qed

theorem sparkline_breaches_ignore_thresholds_witness:
  "responseTimeHours strictThresholds \<noteq> 12
   \<and> (\<exists>data. metricValue slaBreaches
                (filter (\<lambda>d. requestDate d = dateStr (fixedOffset (- 18000000)) 1710090000000 0) data)
              \<noteq> real (getBreachCount strictThresholds
                  (filter (\<lambda>d. requestDate d = dateStr (fixedOffset (- 18000000)) 1710090000000 0) data)))
   \<and> metricValue slaBreaches [exampleA] = 0
   \<and> getBreachCount strictThresholds [exampleA] = 1"
proof -
  have h: "responseTimeHours strictThresholds \<noteq> 12"
    by (simp add: strictThresholds_def)
  from sparkline_breaches_ignore_thresholds [of "[exampleA]" strictThresholds
      "fixedOffset (- 18000000)" 1710090000000] h
  have "\<exists>data. metricValue slaBreaches
                (filter (\<lambda>d. requestDate d = dateStr (fixedOffset (- 18000000)) 1710090000000 0) data)
              \<noteq> real (getBreachCount strictThresholds
                  (filter (\<lambda>d. requestDate d = dateStr (fixedOffset (- 18000000)) 1710090000000 0) data))"
    by blast
  moreover have "metricValue slaBreaches [exampleA] = 0"
    by (simp add: metricValue_def exampleA_def)
  moreover have "getBreachCount strictThresholds [exampleA] = 1"
    by (simp add: getBreachCount_def isBreachingSLA_def isBreachingResponse_def
        isBreachingResolution_def strictThresholds_def exampleA_def)
  ultimately show ?thesis using h by blast
qed

section \<open>Percentages and averages\<close>

text \<open>
  Claim C4. The averages are guarded (zero on an empty collection) and the percent change is
  absent when the previous value is zero, but the percentages in the subtitles of the cards
  Resolved and In Progress divide by the number of filtered records without a guard: when
  the date range leaves no record, both are \<^verbatim>\<open>NaN\<close>.
\<close>

theorem subtitle_NaN_on_empty:
  "filteredData_KPICards [exampleA, exampleB] customRangeExample = []
   \<and> resolvedSubtitle (filteredData_KPICards [exampleA, exampleB] customRangeExample) = NaN
   \<and> inProgressSubtitle (filteredData_KPICards [exampleA, exampleB] customRangeExample) = NaN
   \<and> resolvedSubtitle [] = NaN
   \<and> inProgressSubtitle [] = NaN
   \<and> avgResponseTime [] = 0
   \<and> avgResolutionTime [] = 0
   \<and> metricValue responseTime [] = 0
   \<and> metricValue resolutionTime [] = 0
   \<and> percentChange 5 (Some 0) = None"
  by code_simp

section \<open>Page index\<close>

text \<open>
  Claim C7. The page size is 50, and the handlers of the search box and of the six column
  selects set the page index to 1. The effect that copies the chart filters into the column
  filters leaves the page index as it is: from page 3, selecting the chart filter Fuel keeps
  page 3, which is past the end of the single remaining row, so the page shown is empty while
  the total number of pages is 1. Page 3 is reached with the button Next on the collection
  of 102 records, of which the chart filter Fuel leaves one.
\<close>

theorem page_not_reset_by_chart_filter:
  "currentPage (syncChartFilters cf st) = currentPage st
   \<and> currentPage (syncChartFilters fuelOnly onPageThree) = 3
   \<and> verticalFilter (syncChartFilters fuelOnly onPageThree) = Some Fuel
   \<and> filteredData_DataTable [exampleA, exampleB] (syncChartFilters fuelOnly onPageThree)
        fuelOnly defaultDateRange = [exampleB]
   \<and> paginatedData [exampleB] (currentPage (syncChartFilters fuelOnly onPageThree)) = []
   \<and> totalPages [exampleB] = 1
   \<and> currentPage (onSearchChange ''acme'' onPageThree) = 1
   \<and> currentPage (onVerticalChange (Some Fuel) onPageThree) = 1
   \<and> currentPage (onStatusChange (Some Resolved) onPageThree) = 1
   \<and> currentPage (onCategoryChange (Some APIError) onPageThree) = 1
   \<and> currentPage (onUrgencyChange (Some High) onPageThree) = 1
   \<and> currentPage (onPriorityChange (Some Low) onPageThree) = 1
   \<and> currentPage (onHealthChange (Some Neutral) onPageThree) = 1
   \<and> ITEMS_PER_PAGE = 50
   \<and> distinct (map requestId manyRecords)
   \<and> length (filteredData_DataTable manyRecords initialTableState defaultChartFilters
         defaultDateRange) = 102
   \<and> totalPages manyRecords = 3
   \<and> onNextPage 3 (onNextPage 3 initialTableState) = onPageThree
   \<and> filteredData_DataTable manyRecords (syncChartFilters fuelOnly onPageThree) fuelOnly
        defaultDateRange = [exampleB]"
proof -
  have gen: "currentPage (syncChartFilters cf st) = currentPage st"
    unfolding syncChartFilters_def Let_def by (simp split: option.splits)
  have rest: "currentPage (syncChartFilters fuelOnly onPageThree) = 3
   \<and> verticalFilter (syncChartFilters fuelOnly onPageThree) = Some Fuel
   \<and> filteredData_DataTable [exampleA, exampleB] (syncChartFilters fuelOnly onPageThree)
        fuelOnly defaultDateRange = [exampleB]
   \<and> paginatedData [exampleB] (currentPage (syncChartFilters fuelOnly onPageThree)) = []
   \<and> totalPages [exampleB] = 1
   \<and> currentPage (onSearchChange ''acme'' onPageThree) = 1
   \<and> currentPage (onVerticalChange (Some Fuel) onPageThree) = 1
   \<and> currentPage (onStatusChange (Some Resolved) onPageThree) = 1
   \<and> currentPage (onCategoryChange (Some APIError) onPageThree) = 1
   \<and> currentPage (onUrgencyChange (Some High) onPageThree) = 1
   \<and> currentPage (onPriorityChange (Some Low) onPageThree) = 1
   \<and> currentPage (onHealthChange (Some Neutral) onPageThree) = 1
   \<and> ITEMS_PER_PAGE = 50"
    by code_simp
  have many: "distinct (map requestId manyRecords)
   \<and> length (filteredData_DataTable manyRecords initialTableState defaultChartFilters
         defaultDateRange) = 102
   \<and> totalPages manyRecords = 3
   \<and> onNextPage 3 (onNextPage 3 initialTableState) = onPageThree
   \<and> filteredData_DataTable manyRecords (syncChartFilters fuelOnly onPageThree) fuelOnly
        defaultDateRange = [exampleB]"
    by code_simp
  from gen rest many show ?thesis by blast
qed

end
